theory Spec2Isabelle
  imports Complex_Main "HOL-Library.Word" "HOL-Library.Log_Nat"
begin

section \<open>JavaScript strings\<close>

text \<open>
  A JavaScript string is a sequence of UTF-16 code units, and \<open>length\<close> counts code
  units. String literals of the program are written with \<open>asc\<close>.
\<close>

type_synonym jsstring = "16 word list"

definition asc :: "string \<Rightarrow> jsstring" where
  "asc s = map of_char s"

text \<open>
  \<open>String.prototype.trim\<close> removes WhiteSpace and LineTerminator code points from both
  ends: TAB, LF, VT, FF, CR, SP, NBSP, the Unicode space separators and the byte order mark.
\<close>

definition is_space :: "16 word \<Rightarrow> bool" where
  "is_space c \<longleftrightarrow>
     c \<in> set [0x09, 0x0A, 0x0B, 0x0C, 0x0D, 0x20, 0xA0, 0x1680, 0x2028, 0x2029,
                0x202F, 0x205F, 0x3000, 0xFEFF]
     \<or> 0x2000 \<le> c \<and> c \<le> 0x200A"

definition js_trim :: "jsstring \<Rightarrow> jsstring" where
  "js_trim s = rev (dropWhile is_space (rev (dropWhile is_space s)))"

definition is_digit :: "16 word \<Rightarrow> bool" where
  "is_digit c \<longleftrightarrow> 0x30 \<le> c \<and> c \<le> 0x39"

text \<open>The value of a digit in a radix up to 16, upper or lower case.\<close>

definition digit_of :: "16 word \<Rightarrow> nat option" where
  "digit_of c =
     (if 0x30 \<le> c \<and> c \<le> 0x39 then Some (unat c - 0x30)
      else if 0x61 \<le> c \<and> c \<le> 0x66 then Some (unat c - 0x61 + 10)
      else if 0x41 \<le> c \<and> c \<le> 0x46 then Some (unat c - 0x41 + 10)
      else None)"

definition is_radix_digit :: "nat \<Rightarrow> 16 word \<Rightarrow> bool" where
  "is_radix_digit r c = (case digit_of c of None \<Rightarrow> False | Some d \<Rightarrow> d < r)"

definition digits_val :: "nat \<Rightarrow> jsstring \<Rightarrow> nat" where
  "digits_val r ds = foldl (\<lambda>a c. r * a + (case digit_of c of None \<Rightarrow> 0 | Some d \<Rightarrow> d)) 0 ds"

fun dec_digits :: "nat \<Rightarrow> jsstring" where
  "dec_digits n =
     (if n < 10 then [of_nat (0x30 + n)]
      else dec_digits (n div 10) @ [of_nat (0x30 + n mod 10)])"

declare dec_digits.simps [simp del]

section \<open>JavaScript numbers\<close>

text \<open>
  A Number is an IEEE 754 binary64 value: not-a-number, an infinity, or a finite value
  given by its sign (\<open>True\<close> is negative) and its magnitude, so that the two zeros are
  distinct. Arithmetic computes the exact real result and rounds it to the nearest
  representable value, ties to even.
\<close>

datatype jsnum = NaN | Infinity bool | Finite bool real

definition ipow :: "real \<Rightarrow> int \<Rightarrow> real" where
  "ipow b e = (if 0 \<le> e then b ^ nat e else 1 / b ^ nat (- e))"

text \<open>The binary exponent of a positive real: \<open>2 ^ ilog2 q \<le> q < 2 ^ (ilog2 q + 1)\<close>.\<close>

definition ilog2 :: "real \<Rightarrow> int" where
  "ilog2 q = (if 1 \<le> q then int (floorlog 2 (nat \<lfloor>q\<rfloor>)) - 1
              else - int (floorlog 2 (nat (\<lceil>1 / q\<rceil> - 1))))"

definition round_even :: "real \<Rightarrow> int" where
  "round_even q = (let n = \<lfloor>q\<rfloor>; r = q - of_int n
                   in if r < 1 / 2 then n else if 1 / 2 < r then n + 1
                      else if even n then n else n + 1)"

text \<open>
  Rounding a magnitude to binary64: 53 significant bits, the exponent not below that of
  the subnormal numbers, overflow to infinity.
\<close>

definition fl :: "bool \<Rightarrow> real \<Rightarrow> jsnum" where
  "fl s q = (if q = 0 then Finite s 0
             else let e = max (ilog2 q) (- 1022); u = ipow 2 (e - 52);
                      r = of_int (round_even (q / u)) * u
                  in if ipow 2 1024 \<le> r then Infinity s else Finite s r)"

definition num :: "real \<Rightarrow> jsnum" where
  "num q = Finite (q < 0) \<bar>q\<bar>"

definition signed :: "bool \<Rightarrow> real \<Rightarrow> real" where
  "signed s m = (if s then - m else m)"

fun js_div :: "jsnum \<Rightarrow> jsnum \<Rightarrow> jsnum" where
  "js_div NaN _ = NaN"
| "js_div _ NaN = NaN"
| "js_div (Infinity s) (Infinity t) = NaN"
| "js_div (Infinity s) (Finite t k) = Infinity (s \<noteq> t)"
| "js_div (Finite s m) (Infinity t) = Finite (s \<noteq> t) 0"
| "js_div (Finite s m) (Finite t k) =
     (if k = 0 then (if m = 0 then NaN else Infinity (s \<noteq> t))
      else fl (s \<noteq> t) (m / k))"

fun js_mul :: "jsnum \<Rightarrow> jsnum \<Rightarrow> jsnum" where
  "js_mul NaN _ = NaN"
| "js_mul _ NaN = NaN"
| "js_mul (Infinity s) (Infinity t) = Infinity (s \<noteq> t)"
| "js_mul (Infinity s) (Finite t k) = (if k = 0 then NaN else Infinity (s \<noteq> t))"
| "js_mul (Finite s m) (Infinity t) = (if m = 0 then NaN else Infinity (s \<noteq> t))"
| "js_mul (Finite s m) (Finite t k) = fl (s \<noteq> t) (m * k)"

fun js_add :: "jsnum \<Rightarrow> jsnum \<Rightarrow> jsnum" where
  "js_add NaN _ = NaN"
| "js_add _ NaN = NaN"
| "js_add (Infinity s) (Infinity t) = (if s = t then Infinity s else NaN)"
| "js_add (Infinity s) (Finite t k) = Infinity s"
| "js_add (Finite s m) (Infinity t) = Infinity t"
| "js_add (Finite s m) (Finite t k) =
     (let v = signed s m + signed t k
      in if v = 0 then Finite (s \<and> t) 0 else fl (v < 0) \<bar>v\<bar>)"

fun js_neg :: "jsnum \<Rightarrow> jsnum" where
  "js_neg NaN = NaN"
| "js_neg (Infinity s) = Infinity (\<not> s)"
| "js_neg (Finite s m) = Finite (\<not> s) m"

definition js_sub :: "jsnum \<Rightarrow> jsnum \<Rightarrow> jsnum" where
  "js_sub x y = js_add x (js_neg y)"

text \<open>\<open>x < y\<close> on Numbers; a comparison with NaN is false, and the two zeros are equal.\<close>

fun js_lt :: "jsnum \<Rightarrow> jsnum \<Rightarrow> bool" where
  "js_lt NaN _ = False"
| "js_lt _ NaN = False"
| "js_lt (Infinity s) (Infinity t) = (s \<and> \<not> t)"
| "js_lt (Infinity s) (Finite t k) = s"
| "js_lt (Finite s m) (Infinity t) = (\<not> t)"
| "js_lt (Finite s m) (Finite t k) = (signed s m < signed t k)"

definition js_gt :: "jsnum \<Rightarrow> jsnum \<Rightarrow> bool" where
  "js_gt x y = js_lt y x"

subsection \<open>Strings to numbers\<close>

text \<open>
  \<open>StringToNumber\<close>: white space is trimmed, the empty string is \<open>+0\<close>, then the text is
  a signed decimal literal (with optional fraction and exponent), a signed \<open>Infinity\<close>, or
  an unsigned binary, octal or hexadecimal integer literal; anything else is NaN. The
  mathematical value of the literal is rounded to a Number.
\<close>

definition exponent_part :: "jsstring \<Rightarrow> int option" where
  "exponent_part s =
     (case s of
        [] \<Rightarrow> Some 0
      | c # r \<Rightarrow>
          if c = 0x65 \<or> c = 0x45 then
            (let neg = (r \<noteq> [] \<and> hd r = 0x2D);
                 ds = (if r \<noteq> [] \<and> (hd r = 0x2D \<or> hd r = 0x2B) then tl r else r)
             in if ds \<noteq> [] \<and> list_all is_digit ds
                then Some (if neg then - int (digits_val 10 ds) else int (digits_val 10 ds))
                else None)
          else None)"

definition unsigned_decimal :: "jsstring \<Rightarrow> real option" where
  "unsigned_decimal s =
     (let ip = takeWhile is_digit s; r = dropWhile is_digit s;
          dot = (r \<noteq> [] \<and> hd r = 0x2E);
          fp = (if dot then takeWhile is_digit (tl r) else []);
          r' = (if dot then dropWhile is_digit (tl r) else r)
      in if ip = [] \<and> fp = [] then None
         else case exponent_part r' of
                None \<Rightarrow> None
              | Some e \<Rightarrow>
                  Some ((real (digits_val 10 ip) + real (digits_val 10 fp) / 10 ^ length fp)
                        * ipow 10 e))"

definition radix_prefix :: "jsstring \<Rightarrow> (nat \<times> jsstring) option" where
  "radix_prefix s =
     (case s of
        z # p # ds \<Rightarrow>
          if z \<noteq> 0x30 then None
          else if p = 0x78 \<or> p = 0x58 then Some (16, ds)
          else if p = 0x6F \<or> p = 0x4F then Some (8, ds)
          else if p = 0x62 \<or> p = 0x42 then Some (2, ds)
          else None
      | _ \<Rightarrow> None)"

definition StringToNumber :: "jsstring \<Rightarrow> jsnum" where
  "StringToNumber str =
     (let s = js_trim str
      in if s = [] then Finite False 0
         else case radix_prefix s of
                Some (r, ds) \<Rightarrow>
                  if ds \<noteq> [] \<and> list_all (is_radix_digit r) ds
                  then fl False (real (digits_val r ds)) else NaN
              | None \<Rightarrow>
                  (let neg = (hd s = 0x2D);
                       u = (if hd s = 0x2D \<or> hd s = 0x2B then tl s else s)
                   in if u = asc ''Infinity'' then Infinity neg
                      else case unsigned_decimal u of
                             None \<Rightarrow> NaN
                           | Some v \<Rightarrow> fl neg v))"

subsection \<open>Numbers to strings\<close>

text \<open>
  \<open>Number::toString\<close> of an integer \<open>x \<ge> 10\<^sup>2\<^sup>1\<close>: the shortest digit string \<open>s\<close> of
  \<open>k\<close> digits with \<open>s \<times> 10\<^sup>n\<^sup>-\<^sup>k\<close> rounding to \<open>x\<close>, the closest such to \<open>x\<close>, printed
  in exponent form. Seventeen digits always suffice.
\<close>

definition ndigits :: "nat \<Rightarrow> nat" where
  "ndigits n = length (dec_digits n)"

definition sig_candidates :: "real \<Rightarrow> nat \<Rightarrow> (nat \<times> nat) list" where
  "sig_candidates x k =
     (let d = ndigits (nat \<lfloor>x\<rfloor>); lo = nat \<lfloor>x / 10 ^ (d - k)\<rfloor>
      in filter (\<lambda>(s, n). fl False (real s * 10 ^ (n - k)) = Finite False x)
           [(lo, d), if lo + 1 < 10 ^ k then (lo + 1, d) else (10 ^ (k - 1), d + 1)])"

definition closest :: "real \<Rightarrow> nat \<Rightarrow> (nat \<times> nat) list \<Rightarrow> (nat \<times> nat) option" where
  "closest x k cs =
     (case cs of
        [] \<Rightarrow> None
      | [c] \<Rightarrow> Some c
      | (s1, n1) # (s2, n2) # _ \<Rightarrow>
          (let e1 = \<bar>real s1 * 10 ^ (n1 - k) - x\<bar>; e2 = \<bar>real s2 * 10 ^ (n2 - k) - x\<bar>
           in Some (if e1 < e2 \<or> e1 = e2 \<and> even s1 then (s1, n1) else (s2, n2))))"

function shortest_from :: "nat \<Rightarrow> real \<Rightarrow> nat \<times> nat" where
  "shortest_from k x =
     (case closest x k (sig_candidates x k) of
        Some c \<Rightarrow> c
      | None \<Rightarrow>
          (if k < 17 then shortest_from (Suc k) x
           else (let d = ndigits (nat \<lfloor>x\<rfloor>) in (nat \<lfloor>x / 10 ^ (d - k)\<rfloor>, d))))"
  by pat_completeness auto
termination
  by (relation "measure (\<lambda>(k, x). 17 - k)") auto

declare shortest_from.simps [simp del]

definition big_to_string :: "real \<Rightarrow> jsstring" where
  "big_to_string x =
     (let (s, n) = shortest_from 1 x; ds = dec_digits s
      in (if length ds = 1 then ds else hd ds # 0x2E # tl ds)
         @ asc ''e+'' @ dec_digits (n - 1))"

text \<open>
  \<open>Number.prototype.toFixed(4)\<close>: a non-finite value prints as its name; a magnitude
  of \<open>10\<^sup>2\<^sup>1\<close> or more prints as \<open>Number::toString\<close> does; otherwise the integer \<open>n\<close>
  with \<open>n / 10\<^sup>4\<close> closest to the magnitude is taken, the larger one on a tie, and
  printed with at least five digits, a point before the last four. A negative value keeps
  its sign even when \<open>n = 0\<close>; negative zero prints without one.
\<close>

definition fixed4 :: "real \<Rightarrow> nat" where
  "fixed4 m = nat \<lfloor>m * 10 ^ 4 + 1 / 2\<rfloor>"

function pad_zeros :: "nat \<Rightarrow> jsstring \<Rightarrow> jsstring" where
  "pad_zeros k s = (if length s < k then pad_zeros k (0x30 # s) else s)"
  by pat_completeness auto
termination
  by (relation "measure (\<lambda>(k, s). k - length s)") auto

declare pad_zeros.simps [simp del]

definition render4 :: "nat \<Rightarrow> jsstring" where
  "render4 n =
     (let m = pad_zeros 5 (dec_digits n); k = length m
      in take (k - 4) m @ [0x2E] @ drop (k - 4) m)"

definition toFixed4 :: "jsnum \<Rightarrow> jsstring" where
  "toFixed4 x =
     (case x of
        NaN \<Rightarrow> asc ''NaN''
      | Infinity s \<Rightarrow> (if s then asc ''-Infinity'' else asc ''Infinity'')
      | Finite s m \<Rightarrow>
          (if s \<and> 0 < m then asc ''-'' else [])
          @ (if 10 ^ 21 \<le> m then big_to_string m else render4 (fixed4 m)))"

section \<open>JavaScript values\<close>

text \<open>
  The values \<open>JSON.parse\<close> can return, and \<open>undefined\<close> for a property that is not
  there. An object is the list of its own properties, with distinct keys.
\<close>

datatype jsval =
    Undefined
  | Null
  | Bool bool
  | Num jsnum
  | Str jsstring
  | Arr "jsval list"
  | Obj "(jsstring \<times> jsval) list"

text \<open>
  The errors the program can meet: a system error of the file system or the network with
  its \<open>errno\<close>, the SyntaxError of \<open>JSON.parse\<close>, a TypeError, and an \<open>Error\<close> with its
  message.

  Reading a property throws a TypeError on \<open>undefined\<close> and \<open>null\<close>. The program reads
  only \<open>rates\<close>, \<open>AUD\<close>, \<open>EUR\<close>, \<open>timestamp\<close> and \<open>error\<close>, none of which a built-in
  prototype defines, so a property is there only as an own property of an object.
\<close>

datatype js_error =
    SystemError int
  | SyntaxError
  | TypeError
  | Error jsstring

fun getprop :: "jsval \<Rightarrow> jsstring \<Rightarrow> js_error + jsval" where
  "getprop Undefined k = Inl TypeError"
| "getprop Null k = Inl TypeError"
| "getprop (Obj kvs) k = Inr (case map_of kvs k of None \<Rightarrow> Undefined | Some v \<Rightarrow> v)"
| "getprop _ k = Inr Undefined"

fun ToBoolean :: "jsval \<Rightarrow> bool" where
  "ToBoolean Undefined = False"
| "ToBoolean Null = False"
| "ToBoolean (Bool b) = b"
| "ToBoolean (Num NaN) = False"
| "ToBoolean (Num (Infinity s)) = True"
| "ToBoolean (Num (Finite s m)) = (m \<noteq> 0)"
| "ToBoolean (Str s) = (s \<noteq> [])"
| "ToBoolean (Arr xs) = True"
| "ToBoolean (Obj kvs) = True"

text \<open>
  \<open>ToNumber\<close>. An object converts through its string \<open>[object Object]\<close>, which is not
  numeric. An array converts through the string that joins its elements with commas:
  empty for no element, not numeric for two or more, and for one element that element's
  string (empty for \<open>null\<close> and \<open>undefined\<close>). The string of a Number reads back as the
  same Number, except that negative zero prints as \<open>0\<close>.
\<close>

fun ToNumber :: "jsval \<Rightarrow> jsnum" where
  "ToNumber Undefined = NaN"
| "ToNumber Null = Finite False 0"
| "ToNumber (Bool b) = Finite False (if b then 1 else 0)"
| "ToNumber (Num n) = n"
| "ToNumber (Str s) = StringToNumber s"
| "ToNumber (Obj kvs) = NaN"
| "ToNumber (Arr []) = Finite False 0"
| "ToNumber (Arr [Undefined]) = Finite False 0"
| "ToNumber (Arr [Null]) = Finite False 0"
| "ToNumber (Arr [Bool b]) = NaN"
| "ToNumber (Arr [Num n]) = (if n = Finite True 0 then Finite False 0 else n)"
| "ToNumber (Arr [Str s]) = StringToNumber s"
| "ToNumber (Arr [Obj kvs]) = NaN"
| "ToNumber (Arr [Arr xs]) = ToNumber (Arr xs)"
| "ToNumber (Arr (x # y # zs)) = NaN"

section \<open>What the program prints and requests\<close>

text \<open>
  Console output is kept structured: a message is a list of lines, a line a list of
  spans, a span a style of \<open>cli-color\<close> (or none) around its text. The text of a
  \<open>Date\<close> and of a path joined to the program's directory depend on the host, and stay
  symbolic.
\<close>

datatype style = CyanInverse | Cyan | GreenBlink | Magenta

datatype piece = Lit jsstring | DateOf jsnum | PathOf jsstring

type_synonym span = "style option \<times> piece list"

type_synonym line = "span list"

datatype message = Lines "line list" | Thrown js_error | Value jsval

datatype event =
    ConsoleLog message
  | ConsoleError message
  | HttpRequest jsstring jsstring
  | WriteFile jsstring jsstring

datatype status = Completed | Uncaught js_error

definition plain :: "string \<Rightarrow> line" where
  "plain s = [(None, [Lit (asc s)])]"

section \<open>showResult\<close>

text \<open>
  The guard \<open>obj.rates && obj.rates.AUD && obj.rates.EUR\<close>, evaluated from the left and
  stopping at the first falsy operand.
\<close>

definition rates_present :: "jsval \<Rightarrow> js_error + bool" where
  "rates_present obj =
     (case getprop obj (asc ''rates'') of
        Inl err \<Rightarrow> Inl err
      | Inr rates \<Rightarrow>
          (if \<not> ToBoolean rates then Inr False
           else (case getprop rates (asc ''AUD'') of
                   Inl err \<Rightarrow> Inl err
                 | Inr aud \<Rightarrow>
                     (if \<not> ToBoolean aud then Inr False
                      else (case getprop rates (asc ''EUR'') of
                              Inl err \<Rightarrow> Inl err
                            | Inr eur \<Rightarrow> Inr (ToBoolean eur))))))"

text \<open>
  The body of \<open>showResult\<close> after the guard, given the values of \<open>obj.rates.AUD\<close>,
  \<open>obj.rates.EUR\<close> and \<open>obj.timestamp\<close>. After \<open>toFixed\<close> the two rates are strings, and
  the comparisons with \<open>1.5\<close> and \<open>0.7\<close> convert them back to Numbers.
\<close>

definition summary :: "jsval \<Rightarrow> jsval \<Rightarrow> jsval \<Rightarrow> message" where
  "summary aud eur timestamp =
     (let rateEurAud = js_div (ToNumber aud) (ToNumber eur);
          rateAudEur = js_div (num 1) rateEurAud;
          rateEurAud = toFixed4 rateEurAud;
          rateAudEur = toFixed4 rateAudEur;
          colourEurAud = (if js_gt (StringToNumber rateEurAud) (fl False (15 / 10))
                          then GreenBlink else Magenta);
          colourAudEur = (if js_gt (StringToNumber rateAudEur) (fl False (7 / 10))
                          then GreenBlink else Magenta);
          lastUpdated = DateOf (js_mul (ToNumber timestamp) (num 1000))
      in Lines
           [[(Some CyanInverse, [Lit (asc '' Exchange rates from ''), lastUpdated, Lit (asc '' '')])],
            [(None, [Lit (asc ''  1 EUR buys '')]),
             (Some colourEurAud, [Lit (asc ''AUD $ '' @ rateEurAud)])],
            [(None, [Lit (asc ''  1 AUD buys '')]),
             (Some colourAudEur, [Lit (asc ''EUR '' @ [0x20AC] @ asc '' '' @ rateAudEur)])],
            []])"

definition showResult :: "jsval \<Rightarrow> js_error + event list" where
  "showResult obj =
     (case rates_present obj of
        Inl err \<Rightarrow> Inl err
      | Inr ok \<Rightarrow>
          (if \<not> ok then Inl (Error (asc ''Rates missing from data!''))
           else (case getprop obj (asc ''rates'') of
                   Inl err \<Rightarrow> Inl err
                 | Inr rates \<Rightarrow>
                     (case getprop rates (asc ''AUD'') of
                        Inl err \<Rightarrow> Inl err
                      | Inr aud \<Rightarrow>
                          (case getprop rates (asc ''EUR'') of
                             Inl err \<Rightarrow> Inl err
                           | Inr eur \<Rightarrow>
                               (case getprop obj (asc ''timestamp'') of
                                  Inl err \<Rightarrow> Inl err
                                | Inr timestamp \<Rightarrow>
                                    Inr [ConsoleLog (summary aud eur timestamp)]))))))"

section \<open>The run of the program\<close>

text \<open>
  What the program reads from outside: the cache file and the key file (or the error of
  reading them), \<open>JSON.parse\<close> (\<open>None\<close> for a SyntaxError), \<open>Date.now()\<close> in
  milliseconds, the chunks of the response (or the error of the request), and the error
  of writing the cache file, if any.
\<close>

record env =
  cache_file :: "js_error + jsstring"
  json_parse :: "jsstring \<Rightarrow> jsval option"
  now :: int
  key_file :: "js_error + jsstring"
  response :: "js_error + jsstring list"
  write_error :: "js_error option"

definition currentRatesJSON :: jsstring where
  "currentRatesJSON = asc ''currentRates.json''"

definition errno :: "js_error \<Rightarrow> int option" where
  "errno err = (case err of SystemError n \<Rightarrow> Some n | _ \<Rightarrow> None)"

text \<open>The \<open>catch\<close> block of the cache stage.\<close>

definition caught :: "js_error \<Rightarrow> event list" where
  "caught err =
     (if errno err = Some 34 then [ConsoleLog (Lines [plain ''Cached data file missing...''])]
      else [ConsoleLog (Thrown err)])"

text \<open>
  The cache stage: its events, and whether the program ended there (the \<open>return\<close> after
  a fresh snapshot was shown). Every error thrown inside the \<open>try\<close> is caught.
\<close>

definition read_cache :: "env \<Rightarrow> event list \<times> bool" where
  "read_cache env =
     (case cache_file env of
        Inl err \<Rightarrow> (caught err, False)
      | Inr fileContents \<Rightarrow>
          (case json_parse env fileContents of
             None \<Rightarrow> (caught SyntaxError, False)
           | Some obj \<Rightarrow>
               (case getprop obj (asc ''timestamp'') of
                  Inl err \<Rightarrow> (caught err, False)
                | Inr timestamp \<Rightarrow>
                    (let dataFrom = js_mul (ToNumber timestamp) (num 1000);
                         anHourAgo = js_sub (num (of_int (now env)))
                                       (js_mul (js_mul (num 1000) (num 60)) (num 60))
                     in if js_gt dataFrom anHourAgo
                        then (case showResult obj of
                                Inl err \<Rightarrow> (caught err, False)
                              | Inr evs \<Rightarrow> (evs, True))
                        else ([], False)))))"

text \<open>
  The handlers of the response. The write of the cache file is started before the body
  is parsed; its callback runs after the handler has returned, and never when the
  handler threw, since the uncaught exception ends the process.
\<close>

definition httpCallback :: "env \<Rightarrow> jsstring list \<Rightarrow> event list \<times> status" where
  "httpCallback env chunks =
     (let httpResult = concat chunks;
          started = [ConsoleLog (Lines [plain ''Fetching new currency exchange data:'']),
                     WriteFile currentRatesJSON httpResult];
          written = (case write_error env of
                       None \<Rightarrow> []
                     | Some err \<Rightarrow> [ConsoleError (Thrown err)])
      in (case json_parse env httpResult of
            None \<Rightarrow> (started, Uncaught SyntaxError)
          | Some obj \<Rightarrow>
              (case getprop obj (asc ''error'') of
                 Inl err \<Rightarrow> (started, Uncaught err)
               | Inr e \<Rightarrow>
                   (if ToBoolean e
                    then (started @ [ConsoleError (Value obj)] @ written, Completed)
                    else (case showResult obj of
                            Inl err \<Rightarrow> (started, Uncaught err)
                          | Inr evs \<Rightarrow> (started @ evs @ written, Completed))))))"

text \<open>The \<open>try\<close> block that reads the API key: \<open>None\<close> when it throws.\<close>

definition read_key :: "env \<Rightarrow> jsstring option" where
  "read_key env =
     (case key_file env of
        Inl err \<Rightarrow> None
      | Inr text \<Rightarrow>
          (let apiKey = js_trim text
           in if apiKey = [] \<or> length apiKey \<noteq> 32 then None else Some apiKey))"

definition key_message :: event where
  "key_message =
     ConsoleError (Lines
       [[(None, [Lit (asc ''Error: please provide your openexchangerates.org account''
                      @ [0x27] @ asc ''s API key in '')])],
        [(None, [Lit (asc ''  '')]), (Some Cyan, [PathOf (asc ''api_key.txt'')])],
        []])"

definition fetch :: "env \<Rightarrow> event list \<times> status" where
  "fetch env =
     (case read_key env of
        None \<Rightarrow> ([key_message], Completed)
      | Some apiKey \<Rightarrow>
          (let request = HttpRequest (asc ''openexchangerates.org'')
                           (asc ''/api/latest.json?app_id='' @ apiKey)
           in (case response env of
                 Inl err \<Rightarrow> ([request], Uncaught err)
               | Inr chunks \<Rightarrow>
                   (let (evs, st) = httpCallback env chunks in (request # evs, st)))))"

definition run :: "env \<Rightarrow> event list \<times> status" where
  "run env =
     (let (evs, finished) = read_cache env
      in if finished then (evs, Completed)
         else (let (evs', st) = fetch env in (evs @ evs', st)))"

text \<open>The number of HTTP requests among the events of a run.\<close>

fun is_request :: "event \<Rightarrow> bool" where
  "is_request (HttpRequest host path) = True"
| "is_request _ = False"

definition http_requests :: "event list \<Rightarrow> nat" where
  "http_requests evs = length (filter is_request evs)"

section \<open>Example data\<close>

text \<open>
  A snapshot as the API sends it, with numeric rates, and one without the rate of the
  euro. An environment for examples: the cache file holds a text that parses to
  \<open>cached\<close>, the response arrives in two chunks and parses to \<open>body\<close>; any other
  text is not JSON. Keys of 32 and of 31 characters.
\<close>

definition snapshot :: "real \<Rightarrow> real \<Rightarrow> int \<Rightarrow> jsval" where
  "snapshot aud eur t =
     Obj [(asc ''timestamp'', Num (num (of_int t))),
          (asc ''rates'', Obj [(asc ''AUD'', Num (num aud)), (asc ''EUR'', Num (num eur))])]"

definition aud_only :: "int \<Rightarrow> jsval" where
  "aud_only t =
     Obj [(asc ''timestamp'', Num (num (of_int t))),
          (asc ''rates'', Obj [(asc ''AUD'', Num (num (3 / 2)))])]"

definition example_env :: "jsval \<Rightarrow> int \<Rightarrow> jsstring \<Rightarrow> jsval \<Rightarrow> js_error option \<Rightarrow> env" where
  "example_env cached n key body w =
     \<lparr>cache_file = Inr (asc ''cached''),
      json_parse = (\<lambda>s. if s = asc ''cached'' then Some cached
                         else if s = asc ''body'' then Some body else None),
      now = n,
      key_file = Inr key,
      response = Inr [asc ''bo'', asc ''dy''],
      write_error = w\<rparr>"

definition key32 :: jsstring where
  "key32 = asc ''0123456789abcdef0123456789abcdef''"

definition key31 :: jsstring where
  "key31 = asc ''0123456789abcdef0123456789abcde''"

section \<open>Basic facts\<close>

lemma unat_of_char: "unat (of_char a :: 16 word) = of_char a"
proof -
  have "(of_char a :: nat) < 2 ^ 16"
    by (rule less_trans [OF nat_of_char_less_256]) simp
  then have "unat (of_nat (of_char a) :: 16 word) = of_char a"
    by (simp add: unat_of_nat)
  then show ?thesis by (simp add: of_nat_of_char)
qed

lemma of_char_inj16: "(of_char a :: 16 word) = of_char b \<longleftrightarrow> a = b"
proof
  assume "(of_char a :: 16 word) = of_char b"
  then have "unat (of_char a :: 16 word) = unat (of_char b :: 16 word)" by simp
  then show "a = b" by (simp only: unat_of_char of_char_eq_iff)
qed simp

lemma asc_eq_iff: "asc a = asc b \<longleftrightarrow> a = b"
  unfolding asc_def by (simp add: inj_def of_char_inj16)

lemma asc_append: "asc (a @ b) = asc a @ asc b"
  by (simp add: asc_def)


section \<open>Rounding to binary64\<close>

lemma ipow_pos: "0 < b \<Longrightarrow> 0 < ipow b e"
  by (simp add: ipow_def)

lemma round_even_of_int: "round_even (of_int k) = k"
  by (simp add: round_even_def)

text \<open>A value that is a whole number of units at its own exponent is not changed.\<close>

lemma fl_unit:
  assumes "0 < q" and "q < 2 ^ 1024"
    and "q / ipow 2 (max (ilog2 q) (- 1022) - 52) = of_int k"
  shows "fl s q = Finite s q"
proof -
  define u where "u = ipow 2 (max (ilog2 q) (- 1022) - 52)"
  have u: "0 < u" by (simp add: u_def ipow_pos)
  have "of_int (round_even (q / u)) * u = q"
    using assms(3) u by (simp add: u_def [symmetric] round_even_of_int field_simps)
  moreover have "ipow 2 1024 = (2::real) ^ 1024" by (simp add: ipow_def)
  ultimately show ?thesis
    using assms(1,2) by (simp add: fl_def Let_def u_def [symmetric])
qed

lemma ilog2_of_nat: "0 < n \<Longrightarrow> ilog2 (real n) = int (floorlog 2 n) - 1"
  by (simp add: ilog2_def)

text \<open>Integers up to \<open>2\<^sup>5\<^sup>3\<close> are represented exactly.\<close>

lemma fl_of_nat:
  assumes "0 < n" and "n \<le> 2 ^ 53"
  shows "fl s (real n) = Finite s (real n)"
proof -
  define L where "L = floorlog 2 n"
  have lo: "2 ^ (L - 1) \<le> n" and hi: "n < 2 ^ L"
    using floorlog_bounds [of n 2] assms(1) by (simp_all add: L_def)
  have L1: "1 \<le> L"
    using assms(1) floorlog_eq_zero_iff [of 2 n] by (simp add: L_def Suc_le_eq)
  have "n < 2 ^ 54" using assms(2) by simp
  then have L54: "L \<le> 54" by (simp add: L_def floorlog_le_iff)
  have e: "max (ilog2 (real n)) (- 1022) = int L - 1"
    using L1 assms(1) by (simp add: ilog2_of_nat L_def)
  have big: "real n < 2 ^ 1024"
  proof -
    have "real n \<le> 2 ^ 53" using assms(2) by (metis of_nat_le_iff of_nat_numeral of_nat_power)
    also have "\<dots> < (2::real) ^ 1024" by simp
    finally show ?thesis .
  qed
  have pos: "0 < real n" using assms(1) by simp
  show ?thesis
  proof (cases "L \<le> 53")
    case True
    then have "ipow 2 (int L - 1 - 52) = 1 / 2 ^ (53 - L)"
      by (auto simp: ipow_def nat_diff_distrib' dest: antisym)
    then have "real n / ipow 2 (max (ilog2 (real n)) (- 1022) - 52) = of_int (int (n * 2 ^ (53 - L)))"
      by (simp add: e)
    with pos big show ?thesis by (rule fl_unit)
  next
    case False
    then have L: "L = 54" using L54 by simp
    then have n: "n = 2 ^ 53" using lo assms(2) by simp
    have "real n / ipow 2 (max (ilog2 (real n)) (- 1022) - 52) = real n / 2"
      by (simp add: e L ipow_def)
    also have "\<dots> = of_int (2 ^ 52)" by (simp add: n)
    finally have "real n / ipow 2 (max (ilog2 (real n)) (- 1022) - 52) = of_int (2 ^ 52)" .
    with pos big show ?thesis by (rule fl_unit)
  qed
qed

lemma hour_ms: "js_mul (js_mul (num 1000) (num 60)) (num 60) = Finite False 3600000"
  using fl_of_nat [of 60000 False] fl_of_nat [of 3600000 False] by (simp add: num_def)

section \<open>The error of rounding\<close>

lemma ipow_powi: "ipow b e = b powi e"
  by (simp add: ipow_def power_int_def power_inverse divide_inverse)

lemma ilog2_bounds:
  assumes "0 < q"
  shows "2 powi ilog2 q \<le> q" and "q < 2 powi (ilog2 q + 1)"
proof -
  have "2 powi ilog2 q \<le> q \<and> q < 2 powi (ilog2 q + 1)"
  proof (cases "1 \<le> q")
    case True
    define n where "n = nat \<lfloor>q\<rfloor>"
    define L where "L = floorlog 2 n"
    have n: "0 < n" using True by (simp add: n_def)
    have lo: "2 ^ (L - 1) \<le> n" and hi: "n < 2 ^ L"
      using floorlog_bounds [of n 2] n by (simp_all add: L_def)
    have L: "1 \<le> L" using n floorlog_eq_zero_iff [of 2 n] by (simp add: L_def Suc_le_eq)
    have e: "ilog2 q = int (L - 1)" using True L by (simp add: ilog2_def n_def L_def)
    have rn: "real n \<le> q" and rn': "q < real n + 1"
      using True by (simp_all add: n_def)
    have "real (2 ^ (L - 1)) \<le> real n"
      using lo by (simp only: of_nat_le_iff)
    then have "(2::real) ^ (L - 1) \<le> real n" by simp
    moreover have "2 powi ilog2 q = (2::real) ^ (L - 1)" by (simp only: e power_int_of_nat)
    ultimately have 1: "2 powi ilog2 q \<le> q" using rn by linarith
    have "Suc n \<le> 2 ^ L" using hi by simp
    then have "real (Suc n) \<le> real (2 ^ L)" by (simp only: of_nat_le_iff)
    then have "real n + 1 \<le> 2 ^ L" by simp
    moreover have "ilog2 q + 1 = int L" using L by (simp add: e)
    then have "2 powi (ilog2 q + 1) = (2::real) ^ L" by (simp only: power_int_of_nat)
    ultimately have 2: "q < 2 powi (ilog2 q + 1)" using rn' by linarith
    from 1 2 show ?thesis ..
  next
    case False
    define x where "x = 1 / q"
    have x1: "1 < x" using False assms by (simp add: x_def)
    define m where "m = nat (\<lceil>x\<rceil> - 1)"
    define L where "L = floorlog 2 m"
    have c2: "2 \<le> \<lceil>x\<rceil>" using x1 by linarith
    then have m: "0 < m" by (simp add: m_def)
    have lo: "2 ^ (L - 1) \<le> m" and hi: "m < 2 ^ L"
      using floorlog_bounds [of m 2] m by (simp_all add: L_def)
    have L: "1 \<le> L" using m floorlog_eq_zero_iff [of 2 m] by (simp add: L_def Suc_le_eq)
    have e: "ilog2 q = - int L" using False by (simp add: ilog2_def m_def L_def x_def)
    have rm: "real m = of_int \<lceil>x\<rceil> - 1" using c2 by (simp add: m_def)
    have xm: "x \<le> real m + 1" and mx: "real m < x"
      using rm by linarith+
    have "Suc m \<le> 2 ^ L" using hi by simp
    then have "real (Suc m) \<le> real (2 ^ L)" by (simp only: of_nat_le_iff)
    then have "real m + 1 \<le> 2 ^ L" by simp
    then have "x \<le> 2 ^ L" using xm by linarith
    then have "1 / 2 ^ L \<le> q"
      using assms by (simp add: x_def field_simps)
    moreover have "2 powi ilog2 q = 1 / (2::real) ^ L"
      by (simp only: e power_int_minus_divide power_int_of_nat)
    ultimately have 1: "2 powi ilog2 q \<le> q" by linarith
    have "real (2 ^ (L - 1)) \<le> real m"
      using lo by (simp only: of_nat_le_iff)
    then have "(2::real) ^ (L - 1) \<le> real m" by simp
    then have "2 ^ (L - 1) < x" using mx by linarith
    then have "q < 1 / 2 ^ (L - 1)"
      using assms by (simp add: x_def field_simps)
    moreover have "ilog2 q + 1 = - int (L - 1)" using L by (simp add: e)
    then have "2 powi (ilog2 q + 1) = 1 / (2::real) ^ (L - 1)"
      by (simp only: power_int_minus_divide power_int_of_nat)
    ultimately have 2: "q < 2 powi (ilog2 q + 1)" by linarith
    from 1 2 show ?thesis ..
  qed
  then show "2 powi ilog2 q \<le> q" and "q < 2 powi (ilog2 q + 1)" by simp_all
qed

lemma round_even_error: "\<bar>of_int (round_even x) - x\<bar> \<le> 1 / 2"
proof -
  have "of_int \<lfloor>x\<rfloor> \<le> x" and "x < of_int \<lfloor>x\<rfloor> + 1" by linarith+
  then show ?thesis by (auto simp: round_even_def Let_def)
qed

text \<open>Between one half and two the rounded value is within \<open>2\<^sup>-\<^sup>5\<^sup>2\<close> of the exact one.\<close>

lemma fl_near:
  assumes "1 / 2 \<le> q" and "q \<le> 2"
  shows "\<exists>r. fl s q = Finite s r \<and> \<bar>r - q\<bar> \<le> 1 / 2 ^ 52"
proof -
  have q: "0 < q" using assms(1) by simp
  define e where "e = ilog2 q"
  have lo: "2 powi e \<le> q" and up: "q < 2 powi (e + 1)"
    using ilog2_bounds [OF q] by (simp_all add: e_def)
  have e1: "e \<le> 1"
  proof (rule ccontr)
    assume "\<not> e \<le> 1"
    then have "(2::real) powi 2 \<le> 2 powi e" by (intro power_int_increasing) simp_all
    then show False using lo assms(2) by simp
  qed
  have e2: "- 1 \<le> e"
  proof (rule ccontr)
    assume "\<not> - 1 \<le> e"
    then have "(2::real) powi (e + 1) \<le> 2 powi (- 1)" by (intro power_int_increasing) simp_all
    then show False using up assms(1) by (simp add: power_int_minus_divide)
  qed
  define u where "u = (2::real) powi (e - 52)"
  have u: "0 < u" by (simp add: u_def)
  have "u \<le> 2 powi (- 51)"
    unfolding u_def using e1 by (intro power_int_increasing) simp_all
  then have u51: "u \<le> 1 / 2 ^ 51" by (simp add: power_int_minus_divide)
  define r where "r = of_int (round_even (q / u)) * u"
  have "r - q = (of_int (round_even (q / u)) - q / u) * u"
    using u by (simp add: r_def field_simps)
  then have "\<bar>r - q\<bar> = \<bar>of_int (round_even (q / u)) - q / u\<bar> * u"
    using u by (simp only: abs_mult abs_of_pos)
  also have "\<dots> \<le> 1 / 2 * u"
    using round_even_error [of "q / u"] u by (intro mult_right_mono) simp_all
  also have "\<dots> \<le> 1 / 2 ^ 52" using u51 by simp
  finally have err: "\<bar>r - q\<bar> \<le> 1 / 2 ^ 52" .
  moreover have "(1::real) / 2 ^ 52 \<le> 1" by simp
  ultimately have "r \<le> 3" using assms(2) by linarith
  then have "\<not> 2 ^ 1024 \<le> r" by simp
  moreover have "max (ilog2 q) (- 1022) = e" using e2 by (simp add: e_def)
  ultimately have "fl s q = Finite s r"
    using q by (simp add: fl_def Let_def ipow_powi u_def [symmetric] r_def [symmetric])
  with err show ?thesis by blast
qed

lemma fixed4_near:
  assumes "0 \<le> m"
  shows "\<bar>real (fixed4 m) / 10 ^ 4 - m\<bar> \<le> 1 / 20000"
proof -
  define k where "k = \<lfloor>m * 10 ^ 4 + 1 / 2\<rfloor>"
  have "0 \<le> k" using assms by (simp add: k_def)
  then have k: "real (fixed4 m) = of_int k" by (simp add: fixed4_def k_def)
  have "of_int k \<le> m * 10 ^ 4 + 1 / 2" and "m * 10 ^ 4 + 1 / 2 < of_int k + 1"
    unfolding k_def by linarith+
  then have "- (1 / 20000) \<le> of_int k / 10 ^ 4 - m" and "of_int k / 10 ^ 4 - m \<le> 1 / 20000"
    by (simp_all add: field_simps)
  then have "\<bar>of_int k / 10 ^ 4 - m\<bar> \<le> 1 / 20000" by linarith
  then show ?thesis by (simp only: k)
qed

section \<open>Printed decimals read back\<close>

lemma unat_digit: "d < 10 \<Longrightarrow> unat (of_nat (48 + d) :: 16 word) = 48 + d"
  by (simp only: unat_of_nat) simp

lemma is_digit_of_nat: "d < 10 \<Longrightarrow> is_digit (of_nat (48 + d))"
  by (simp only: is_digit_def word_le_nat_alt unat_digit) simp

lemma digit_of_of_nat: "d < 10 \<Longrightarrow> digit_of (of_nat (48 + d)) = Some d"
  by (simp only: digit_of_def word_le_nat_alt unat_digit) simp

lemma foldl_digits:
  fixes dv :: "'a \<Rightarrow> nat"
  shows "foldl (\<lambda>a c. r * a + dv c) acc ds
         = acc * r ^ length ds + foldl (\<lambda>a c. r * a + dv c) 0 ds"
proof (induction ds arbitrary: acc)
  case Nil
  show ?case by simp
next
  case (Cons c ds)
  have "foldl (\<lambda>a c. r * a + dv c) acc (c # ds)
        = (r * acc + dv c) * r ^ length ds + foldl (\<lambda>a c. r * a + dv c) 0 ds"
    using Cons.IH [of "r * acc + dv c"] by simp
  moreover have "foldl (\<lambda>a c. r * a + dv c) 0 (c # ds)
        = dv c * r ^ length ds + foldl (\<lambda>a c. r * a + dv c) 0 ds"
    using Cons.IH [of "dv c"] by simp
  ultimately show ?case by (simp add: algebra_simps)
qed

lemma digits_val_append:
  "digits_val r (xs @ ys) = digits_val r xs * r ^ length ys + digits_val r ys"
  unfolding digits_val_def foldl_append
  by (rule foldl_digits)

lemma digits_val_single: "d < 10 \<Longrightarrow> digits_val 10 [of_nat (48 + d)] = d"
  by (simp only: digits_val_def foldl.simps digit_of_of_nat) simp

lemma is_digit_add: "d < 10 \<Longrightarrow> is_digit (48 + of_nat d)"
  using is_digit_of_nat [of d] by simp

lemma digits_val_add: "d < 10 \<Longrightarrow> digits_val 10 [48 + of_nat d] = d"
  using digits_val_single [of d] by simp

lemma dec_digits_digits: "list_all is_digit (dec_digits n)"
proof (induction n rule: dec_digits.induct)
  case (1 n)
  show ?case
  proof (cases "n < 10")
    case True
    then show ?thesis by (subst dec_digits.simps) (simp add: is_digit_add)
  next
    case False
    then show ?thesis
      using 1 by (subst dec_digits.simps) (simp add: is_digit_add)
  qed
qed

lemma dec_digits_val: "digits_val 10 (dec_digits n) = n"
proof (induction n rule: dec_digits.induct)
  case (1 n)
  show ?case
  proof (cases "n < 10")
    case True
    then show ?thesis by (subst dec_digits.simps) (simp add: digits_val_add)
  next
    case False
    then have "digits_val 10 (dec_digits (n div 10)) = n div 10" using 1 by simp
    then show ?thesis
      using False
      by (subst dec_digits.simps) (simp add: digits_val_append digits_val_add)
  qed
qed

lemma zero_digit: "is_digit 0x30" and zero_val: "digit_of 0x30 = Some 0"
  by (simp_all add: is_digit_def digit_of_def)

lemma pad_zeros_props:
  "list_all is_digit s \<Longrightarrow>
     list_all is_digit (pad_zeros k s) \<and> digits_val 10 (pad_zeros k s) = digits_val 10 s
     \<and> k \<le> length (pad_zeros k s)"
proof (induction k s rule: pad_zeros.induct)
  case (1 k s)
  show ?case
  proof (cases "length s < k")
    case True
    have "digits_val 10 (0x30 # s) = digits_val 10 s"
      using digits_val_append [of 10 "[0x30]" s] by (simp add: digits_val_def zero_val)
    then show ?thesis
      using True 1 by (subst (1 2 3) pad_zeros.simps) (simp add: zero_digit)
  next
    case False
    then show ?thesis using 1(2) by (subst (1 2 3) pad_zeros.simps) simp
  qed
qed

lemma render4_value: "unsigned_decimal (render4 n) = Some (real n / 10 ^ 4)"
proof -
  define m where "m = pad_zeros 5 (dec_digits n)"
  define ip where "ip = take (length m - 4) m"
  define fp where "fp = drop (length m - 4) m"
  have m: "list_all is_digit m" "digits_val 10 m = n" "5 \<le> length m"
    using pad_zeros_props [OF dec_digits_digits, of 5 n] by (simp_all add: m_def dec_digits_val)
  have split: "m = ip @ fp" by (simp add: ip_def fp_def)
  have ip: "list_all is_digit ip" "ip \<noteq> []" and fp: "list_all is_digit fp" "length fp = 4"
    using m by (auto simp: ip_def fp_def list_all_iff dest: in_set_takeD in_set_dropD)
  have dot: "\<not> is_digit 0x2E" by (simp add: is_digit_def)
  have tw: "takeWhile is_digit (ip @ 0x2E # fp) = ip"
    and dw: "dropWhile is_digit (ip @ 0x2E # fp) = 0x2E # fp"
    using ip(1) dot by (simp_all add: list_all_iff)
  have tw': "takeWhile is_digit fp = fp" and dw': "dropWhile is_digit fp = []"
    using fp(1) by (simp_all add: list_all_iff)
  have "real n = real (digits_val 10 ip) * 10 ^ 4 + real (digits_val 10 fp)"
    using m(2) digits_val_append [of 10 ip fp] fp(2) by (simp add: split)
  then have val: "real (digits_val 10 ip) + real (digits_val 10 fp) / 10 ^ 4 = real n / 10 ^ 4"
    by (simp add: field_simps)
  have "render4 n = ip @ 0x2E # fp"
    by (simp add: render4_def Let_def m_def ip_def fp_def)
  then show ?thesis
    using ip(2) val fp(2)
    by (simp add: unsigned_decimal_def Let_def tw dw tw' dw' exponent_part_def ipow_def)
qed

section \<open>Evaluating the examples\<close>

lemmas fl_eval = fl_def ilog2_def ipow_def round_even_def compute_floorlog Let_def

lemmas string_eval = asc_def js_trim_def is_space_def is_digit_def digit_of_def digits_val_def
  exponent_part_def unsigned_decimal_def radix_prefix_def StringToNumber_def ipow_def

lemmas fixed_eval = toFixed4_def fixed4_def render4_def pad_zeros.simps dec_digits.simps asc_def

lemma fl_3_2: "fl s (3 / 2) = Finite s (3 / 2)"
  by (simp add: fl_eval)

lemma fl_2_3: "fl s (2 / 3) = Finite s (6004799503160661 / 9007199254740992)"
  by (simp add: fl_eval)

lemma fl_7_10: "fl s (7 / 10) = Finite s (3152519739159347 / 4503599627370496)"
  by (simp add: fl_eval)

lemma fl_6667: "fl s (6667 / 10000) = Finite s (6005099743135819 / 9007199254740992)"
  by (simp add: fl_eval)


lemma fixed_3_2: "toFixed4 (Finite False (3 / 2)) = asc ''1.5000''"
  by (simp add: fixed_eval)

lemma fixed_2_3: "toFixed4 (Finite False (6004799503160661 / 9007199254740992)) = asc ''0.6667''"
  by (simp add: fixed_eval)


lemma number_15000: "StringToNumber (asc ''1.5000'') = Finite False (3 / 2)"
  by (simp add: string_eval fl_3_2)

lemma number_6667: "StringToNumber (asc ''0.6667'') = Finite False (6005099743135819 / 9007199254740992)"
  by (simp add: string_eval fl_6667)

section \<open>The guard of showResult\<close>

lemma rates_missing:
  assumes "getprop obj (asc ''rates'') = Inr r"
    and "r = Undefined \<or> r = Null \<or> getprop r (asc ''AUD'') = Inr Undefined
         \<or> getprop r (asc ''EUR'') = Inr Undefined"
  shows "showResult obj = Inl (Error (asc ''Rates missing from data!''))"
proof -
  have "rates_present obj = Inr False"
    using assms by (cases r) (auto simp: rates_present_def)
  then show ?thesis by (simp add: showResult_def)
qed

text \<open>
  Claim C7. For every value that has a \<open>rates\<close> property to read (any JSON object, in
  particular) but lacks \<open>rates.AUD\<close> or \<open>rates.EUR\<close> (because \<open>rates\<close> is missing or
  \<open>null\<close>, or because one of the two rates is missing from it), \<open>showResult\<close> throws the
  error \<open>Rates missing from data!\<close> and prints nothing, so no \<open>NaN\<close> is computed or printed.
\<close>

theorem missing_rates_fail:
  assumes "getprop obj (asc ''rates'') = Inr r"
    and "r = Undefined \<or> r = Null \<or> getprop r (asc ''AUD'') = Inr Undefined
         \<or> getprop r (asc ''EUR'') = Inr Undefined"
  shows "showResult obj = Inl (Error (asc ''Rates missing from data!''))"
  using assms by (rule rates_missing)

theorem missing_rates_fail_witness:
  "showResult (aud_only 1000) = Inl (Error (asc ''Rates missing from data!''))"
  by (rule missing_rates_fail [where r = "Obj [(asc ''AUD'', Num (num (3 / 2)))]"])
     (simp_all add: aud_only_def asc_eq_iff)

text \<open>
  Claim C4. For every snapshot in which one of the two rates is the number zero (of either
  sign), \<open>showResult\<close> throws the error \<open>Rates missing from data!\<close> before any division,
  and prints nothing: zero is falsy, so the guard rejects it.
\<close>

theorem zero_rate_fails:
  assumes "getprop obj (asc ''rates'') = Inr r"
    and "getprop r (asc ''AUD'') = Inr a" and "getprop r (asc ''EUR'') = Inr e"
    and "a = Num (Finite s 0) \<or> e = Num (Finite s 0)"
  shows "showResult obj = Inl (Error (asc ''Rates missing from data!''))"
proof -
  have "rates_present obj = Inr False"
    using assms by (cases r) (auto simp: rates_present_def)
  then show ?thesis by (simp add: showResult_def)
qed

theorem zero_rate_fails_witness:
  "showResult (snapshot (3 / 2) 0 1000) = Inl (Error (asc ''Rates missing from data!''))"
  by (rule zero_rate_fails [where r = "Obj [(asc ''AUD'', Num (num (3 / 2))), (asc ''EUR'', Num (num 0))]"
        and a = "Num (num (3 / 2))" and e = "Num (num 0)" and s = False])
     (simp_all add: snapshot_def asc_eq_iff num_def)

section \<open>The printed summary\<close>

lemma guard_passes:
  assumes "getprop obj (asc ''rates'') = Inr r"
    and "getprop r (asc ''AUD'') = Inr aud" and "getprop r (asc ''EUR'') = Inr eur"
    and "ToBoolean aud" and "ToBoolean eur"
  shows "\<exists>ts. getprop obj (asc ''timestamp'') = Inr ts
              \<and> showResult obj = Inr [ConsoleLog (summary aud eur ts)]"
proof -
  have r: "ToBoolean r" using assms(2,4) by (cases r) auto
  have ok: "rates_present obj = Inr True"
    using assms r by (simp add: rates_present_def)
  obtain ts where ts: "getprop obj (asc ''timestamp'') = Inr ts"
    using assms(1) by (cases obj) auto
  show ?thesis using assms ok ts by (simp add: showResult_def)
qed





lemma summary_example:
  "summary (Num (num (3 / 2))) (Num (num 1)) ts =
     Lines [[(Some CyanInverse, [Lit (asc '' Exchange rates from ''),
                                 DateOf (js_mul (ToNumber ts) (num 1000)), Lit (asc '' '')])],
            [(None, [Lit (asc ''  1 EUR buys '')]), (Some Magenta, [Lit (asc ''AUD $ 1.5000'')])],
            [(None, [Lit (asc ''  1 AUD buys '')]),
             (Some Magenta, [Lit (asc ''EUR '' @ [0x20AC] @ asc '' 0.6667'')])],
            []]"
  by (simp add: summary_def Let_def num_def fl_3_2 fl_2_3 fixed_3_2 fixed_2_3
        number_15000 number_6667 fl_7_10 js_gt_def signed_def asc_append [symmetric])

lemma show_example:
  "showResult (snapshot (3 / 2) 1 t) =
     Inr [ConsoleLog (summary (Num (num (3 / 2))) (Num (num 1)) (Num (num (of_int t))))]"
proof -
  have "\<exists>ts. getprop (snapshot (3 / 2) 1 t) (asc ''timestamp'') = Inr ts
          \<and> showResult (snapshot (3 / 2) 1 t) = Inr [ConsoleLog (summary (Num (num (3 / 2))) (Num (num 1)) ts)]"
    by (rule guard_passes
          [where r = "Obj [(asc ''AUD'', Num (num (3 / 2))), (asc ''EUR'', Num (num 1))]"])
       (simp_all add: snapshot_def asc_eq_iff, simp_all add: num_def)
  then show ?thesis by (auto simp: snapshot_def)
qed

text \<open>
  Claim C3, as amended. For the snapshot with rates \<open>AUD: 1.5\<close> and \<open>EUR: 1.0\<close> the
  program prints the cross-rate \<open>1.5000\<close> and the inverse \<open>0.6667\<close>, and highlights
  neither: \<open>1.5\<close> is not above \<open>1.5\<close>, and \<open>0.6667\<close> is not above \<open>0.7\<close>.
\<close>

theorem example_rates_not_highlighted:
  "showResult (snapshot (3 / 2) 1 t) =
     Inr [ConsoleLog (Lines
       [[(Some CyanInverse, [Lit (asc '' Exchange rates from ''),
                             DateOf (js_mul (num (of_int t)) (num 1000)), Lit (asc '' '')])],
        [(None, [Lit (asc ''  1 EUR buys '')]), (Some Magenta, [Lit (asc ''AUD $ 1.5000'')])],
        [(None, [Lit (asc ''  1 AUD buys '')]),
         (Some Magenta, [Lit (asc ''EUR '' @ [0x20AC] @ asc '' 0.6667'')])],
        []])]"
  by (simp add: show_example summary_example)

text \<open>
  Claim C3 as stated has the AUD-per-EUR line highlighted; that is not what is printed.
\<close>

theorem example_rates_highlight_counterexample:
  "showResult (snapshot (3 / 2) 1 1000) \<noteq>
     Inr [ConsoleLog (Lines
       [[(Some CyanInverse, [Lit (asc '' Exchange rates from ''),
                             DateOf (Finite False 1000000), Lit (asc '' '')])],
        [(None, [Lit (asc ''  1 EUR buys '')]), (Some GreenBlink, [Lit (asc ''AUD $ 1.5000'')])],
        [(None, [Lit (asc ''  1 AUD buys '')]),
         (Some Magenta, [Lit (asc ''EUR '' @ [0x20AC] @ asc '' 0.6667'')])],
        []])]"
  by (simp add: show_example summary_example)

section \<open>Requests of a run\<close>

lemma fl_of_nat0: "n \<le> 2 ^ 53 \<Longrightarrow> fl s (real n) = Finite s (real n)"
proof (cases "n = 0")
  case True
  then show ?thesis by (simp add: fl_def)
next
  case False
  moreover assume "n \<le> 2 ^ 53"
  ultimately show ?thesis by (intro fl_of_nat) simp_all
qed

lemma fl_abs_int:
  assumes "\<bar>k\<bar> \<le> 2 ^ 53"
  shows "fl s \<bar>real_of_int k\<bar> = Finite s \<bar>real_of_int k\<bar>"
proof -
  have "nat \<bar>k\<bar> \<le> 2 ^ 53" using assms by (simp add: nat_le_iff)
  then have "fl s (real (nat \<bar>k\<bar>)) = Finite s (real (nat \<bar>k\<bar>))" by (rule fl_of_nat0)
  then show ?thesis by simp
qed

text \<open>
  For a whole number of seconds and a time of \<open>Date.now()\<close> in the range of Dates, the
  products and differences of the freshness check are exact.
\<close>

lemma fresh_iff:
  assumes "\<bar>t\<bar> * 1000 \<le> 2 ^ 53" and "\<bar>n\<bar> \<le> 8640000000000000"
  shows "js_gt (js_mul (num (of_int t)) (num 1000))
               (js_sub (num (of_int n)) (js_mul (js_mul (num 1000) (num 60)) (num 60)))
         \<longleftrightarrow> n - t * 1000 < 3600000"
proof -
  have "fl (t < 0) \<bar>real_of_int (t * 1000)\<bar> = Finite (t < 0) \<bar>real_of_int (t * 1000)\<bar>"
    using assms(1) by (intro fl_abs_int) (simp add: abs_mult)
  then have mul: "js_mul (num (of_int t)) (num 1000) = Finite (t < 0) \<bar>real_of_int (t * 1000)\<bar>"
    by (simp add: num_def abs_mult)
  have "\<bar>n - 3600000\<bar> \<le> 2 ^ 53" using assms(2) by simp
  then have "fl (n - 3600000 < 0) \<bar>real_of_int (n - 3600000)\<bar>
             = Finite (n - 3600000 < 0) \<bar>real_of_int (n - 3600000)\<bar>"
    by (rule fl_abs_int)
  moreover have "signed (n < 0) \<bar>real_of_int n\<bar> + signed True 3600000 = real_of_int (n - 3600000)"
    by (simp add: signed_def)
  ultimately have sub: "js_sub (num (of_int n)) (Finite False 3600000)
                        = Finite (n - 3600000 < 0) \<bar>real_of_int (n - 3600000)\<bar>"
    unfolding js_sub_def num_def by (auto simp: Let_def)
  have "signed (n - 3600000 < 0) \<bar>real_of_int (n - 3600000)\<bar> = real_of_int (n - 3600000)"
    and "signed (t < 0) \<bar>real_of_int (t * 1000)\<bar> = real_of_int (t * 1000)"
    by (simp_all add: signed_def)
  then have "js_lt (Finite (n - 3600000 < 0) \<bar>real_of_int (n - 3600000)\<bar>)
                   (Finite (t < 0) \<bar>real_of_int (t * 1000)\<bar>) \<longleftrightarrow> n - 3600000 < t * 1000"
    by (simp only: js_lt.simps of_int_less_iff)
  then show ?thesis
    by (simp only: hour_ms mul sub js_gt_def) linarith
qed

lemma requests_Nil: "http_requests [] = 0"
  by (simp add: http_requests_def)

lemma requests_Cons:
  "http_requests (e # evs) = (if is_request e then 1 else 0) + http_requests evs"
  by (simp add: http_requests_def)

lemma requests_append: "http_requests (xs @ ys) = http_requests xs + http_requests ys"
  by (simp add: http_requests_def)

lemmas requests_simps = requests_Nil requests_Cons requests_append

lemma requests_showResult: "showResult obj = Inr evs \<Longrightarrow> http_requests evs = 0"
  by (auto simp: showResult_def requests_simps split: sum.splits if_splits)

lemma requests_caught: "http_requests (caught err) = 0"
  by (simp add: caught_def requests_simps)

lemma requests_read_cache: "http_requests (fst (read_cache env)) = 0"
  by (auto simp: read_cache_def Let_def requests_caught requests_showResult requests_simps
           split: sum.splits option.splits)

lemma requests_httpCallback: "http_requests (fst (httpCallback env chunks)) = 0"
  by (auto simp: httpCallback_def Let_def requests_showResult requests_simps
           split: sum.splits option.splits)

lemma requests_fetch: "http_requests (fst (fetch env)) = (if read_key env = None then 0 else 1)"
proof (cases "read_key env")
  case None
  then show ?thesis by (simp add: fetch_def key_message_def requests_simps)
next
  case (Some apiKey)
  show ?thesis
  proof (cases "response env")
    case (Inl err)
    with Some show ?thesis by (simp add: fetch_def requests_simps)
  next
    case (Inr chunks)
    obtain evs st where cb: "httpCallback env chunks = (evs, st)" by (cases "httpCallback env chunks")
    then have "http_requests evs = 0" using requests_httpCallback [of env chunks] by simp
    with Some Inr cb show ?thesis by (simp add: fetch_def requests_simps)
  qed
qed

lemma requests_run:
  "http_requests (fst (run env))
   = (if snd (read_cache env) then 0 else if read_key env = None then 0 else 1)"
  using requests_read_cache [of env] requests_fetch [of env]
  by (auto simp: run_def requests_simps split: prod.splits)

lemma read_cache_parsed:
  assumes "cache_file env = Inr c" and "json_parse env c = Some obj"
    and "getprop obj (asc ''timestamp'') = Inr (Num (num (of_int t)))"
    and "\<bar>t\<bar> * 1000 \<le> 2 ^ 53" and "\<bar>now env\<bar> \<le> 8640000000000000"
  shows "read_cache env =
           (if now env - t * 1000 < 3600000
            then (case showResult obj of Inl err \<Rightarrow> (caught err, False) | Inr evs \<Rightarrow> (evs, True))
            else ([], False))"
  using assms(1-3) fresh_iff [OF assms(4,5)]
  by (simp add: read_cache_def Let_def)


section \<open>The example environment\<close>

lemma example_env_simps:
  "cache_file (example_env cached n key body w) = Inr (asc ''cached'')"
  "json_parse (example_env cached n key body w) (asc ''cached'') = Some cached"
  "json_parse (example_env cached n key body w) (asc ''body'') = Some body"
  "now (example_env cached n key body w) = n"
  "key_file (example_env cached n key body w) = Inr key"
  "response (example_env cached n key body w) = Inr [asc ''bo'', asc ''dy'']"
  "write_error (example_env cached n key body w) = w"
  by (simp_all add: example_env_def asc_eq_iff)

lemma trim_key32: "js_trim key32 = key32" and length_key32: "length key32 = 32"
  by (simp_all add: key32_def js_trim_def is_space_def asc_def)

lemma trim_key31: "js_trim key31 = key31" and length_key31: "length key31 = 31"
  by (simp_all add: key31_def js_trim_def is_space_def asc_def)

lemma read_key_32: "key_file env = Inr key32 \<Longrightarrow> read_key env = Some key32"
  by (simp add: read_key_def trim_key32 length_key32 Let_def) (simp add: key32_def asc_def)

lemma read_key_31: "key_file env = Inr key31 \<Longrightarrow> read_key env = None"
  by (simp add: read_key_def trim_key31 length_key31 Let_def)

lemma snapshot_timestamp:
  "getprop (snapshot aud eur t) (asc ''timestamp'') = Inr (Num (num (of_int t)))"
  by (simp add: snapshot_def)


section \<open>Cache or fetch\<close>


lemma requests_fresh_example:
  "run (example_env (snapshot (3 / 2) 1 1000) 4599999 key body w)
   = ([ConsoleLog (summary (Num (num (3 / 2))) (Num (num 1)) (Num (num 1000)))], Completed)"
proof -
  have "read_cache (example_env (snapshot (3 / 2) 1 1000) 4599999 key body w)
        = ([ConsoleLog (summary (Num (num (3 / 2))) (Num (num 1)) (Num (num 1000)))], True)"
    by (subst read_cache_parsed [where c = "asc ''cached''" and obj = "snapshot (3 / 2) 1 1000" and t = 1000])
       (simp_all add: example_env_simps snapshot_timestamp show_example)
  then show ?thesis by (simp add: run_def)
qed

lemma stale_boundary_example:
  "read_cache (example_env (snapshot (3 / 2) 1 1000) 4600000 key body w) = ([], False)"
  by (subst read_cache_parsed [where c = "asc ''cached''" and obj = "snapshot (3 / 2) 1 1000" and t = 1000])
     (simp_all add: example_env_simps snapshot_timestamp)



section \<open>The credential and the response\<close>

text \<open>
  Claim C5, as amended. A key file whose trimmed content does not have exactly 32
  code units (the empty content included) yields no key, and no run with it issues an
  HTTP request; when the cache stage does not end the run, the run ends with the
  message that names the key file, printed before any request could be made.
\<close>

theorem invalid_credential_never_requests:
  assumes "key_file env = Inr text" and "length (js_trim text) \<noteq> 32"
  shows "read_key env = None
         \<and> http_requests (fst (run env)) = 0
         \<and> (\<not> snd (read_cache env) \<longrightarrow>
              run env = (fst (read_cache env) @ [key_message], Completed))"
proof -
  have key: "read_key env = None"
    using assms by (simp add: read_key_def Let_def)
  then have "fetch env = ([key_message], Completed)"
    by (simp add: fetch_def)
  then have "\<not> snd (read_cache env) \<Longrightarrow>
             run env = (fst (read_cache env) @ [key_message], Completed)"
    by (cases "read_cache env") (simp add: run_def)
  with key show ?thesis by (simp add: requests_run)
qed

theorem invalid_credential_never_requests_witness:
  "length (js_trim key31) \<noteq> 32
   \<and> http_requests (fst (run (example_env (snapshot (3 / 2) 1 1000) 4600000 key31 Null None))) = 0
   \<and> run (example_env (snapshot (3 / 2) 1 1000) 4600000 key31 Null None)
       = ([key_message], Completed)"
  using invalid_credential_never_requests
    [of "example_env (snapshot (3 / 2) 1 1000) 4600000 key31 Null None" key31]
  by (auto simp: example_env_simps trim_key31 length_key31 stale_boundary_example)

text \<open>
  Claim C5 as stated has every run with such a key file end with that message; a run
  served from a fresh cache never reads the key file and prints the rates.
\<close>

theorem invalid_credential_message_counterexample:
  "length (js_trim key31) \<noteq> 32
   \<and> key_message \<notin> set (fst (run (example_env (snapshot (3 / 2) 1 1000) 4599999 key31 Null None)))
   \<and> snd (run (example_env (snapshot (3 / 2) 1 1000) 4599999 key31 Null None)) = Completed"
  by (simp add: requests_fresh_example trim_key31 length_key31 key_message_def)

text \<open>
  Claim C6, as amended. When the fetched body parses to a value whose \<open>error\<close> property
  is truthy, the handler reports that value on the error stream and returns: nothing is
  printed by \<open>showResult\<close>, whatever it would do with the value.
\<close>

theorem error_payload_short_circuits:
  assumes "json_parse env (concat chunks) = Some obj"
    and "getprop obj (asc ''error'') = Inr e" and "ToBoolean e"
  shows "httpCallback env chunks =
           ([ConsoleLog (Lines [plain ''Fetching new currency exchange data:'']),
             WriteFile currentRatesJSON (concat chunks),
             ConsoleError (Value obj)]
            @ (case write_error env of None \<Rightarrow> [] | Some err \<Rightarrow> [ConsoleError (Thrown err)]),
            Completed)"
  using assms by (simp add: httpCallback_def Let_def)

theorem error_payload_short_circuits_witness:
  "httpCallback (example_env Null 0 key32
                   (Obj [(asc ''error'', Bool True), (asc ''message'', Str (asc ''Invalid App ID''))])
                   None) [asc ''bo'', asc ''dy'']
   = ([ConsoleLog (Lines [plain ''Fetching new currency exchange data:'']),
       WriteFile currentRatesJSON (asc ''body''),
       ConsoleError (Value (Obj [(asc ''error'', Bool True),
                                 (asc ''message'', Str (asc ''Invalid App ID''))]))],
      Completed)"
  using error_payload_short_circuits
    [of "example_env Null 0 key32
           (Obj [(asc ''error'', Bool True), (asc ''message'', Str (asc ''Invalid App ID''))]) None"
        "[asc ''bo'', asc ''dy'']"
        "Obj [(asc ''error'', Bool True), (asc ''message'', Str (asc ''Invalid App ID''))]"
        "Bool True"]
  by (simp add: example_env_simps asc_append [symmetric])

lemma show_false_error:
  "showResult (Obj [(asc ''error'', Bool False), (asc ''timestamp'', Num (num 1000)),
                    (asc ''rates'', Obj [(asc ''AUD'', Num (num (3 / 2))), (asc ''EUR'', Num (num 1))])])
   = Inr [ConsoleLog (summary (Num (num (3 / 2))) (Num (num 1)) (Num (num 1000)))]"
proof -
  have "\<exists>ts. getprop (Obj [(asc ''error'', Bool False), (asc ''timestamp'', Num (num 1000)),
                    (asc ''rates'', Obj [(asc ''AUD'', Num (num (3 / 2))), (asc ''EUR'', Num (num 1))])])
                 (asc ''timestamp'') = Inr ts
          \<and> showResult (Obj [(asc ''error'', Bool False), (asc ''timestamp'', Num (num 1000)),
                    (asc ''rates'', Obj [(asc ''AUD'', Num (num (3 / 2))), (asc ''EUR'', Num (num 1))])])
              = Inr [ConsoleLog (summary (Num (num (3 / 2))) (Num (num 1)) ts)]"
    by (rule guard_passes
          [where r = "Obj [(asc ''AUD'', Num (num (3 / 2))), (asc ''EUR'', Num (num 1))]"])
       (simp_all add: asc_eq_iff, simp_all add: num_def)
  then show ?thesis by (auto simp: asc_eq_iff)
qed

text \<open>
  Claim C6 as stated covers every body with an \<open>error\<close> field; with \<open>error: false\<close> the
  object is passed to \<open>showResult\<close> and its rates are printed.
\<close>

theorem falsy_error_field_counterexample:
  "getprop (Obj [(asc ''error'', Bool False), (asc ''timestamp'', Num (num 1000)),
                 (asc ''rates'', Obj [(asc ''AUD'', Num (num (3 / 2))), (asc ''EUR'', Num (num 1))])])
           (asc ''error'') = Inr (Bool False)
   \<and> httpCallback (example_env Null 0 key32
        (Obj [(asc ''error'', Bool False), (asc ''timestamp'', Num (num 1000)),
              (asc ''rates'', Obj [(asc ''AUD'', Num (num (3 / 2))), (asc ''EUR'', Num (num 1))])])
        None) [asc ''bo'', asc ''dy'']
     = ([ConsoleLog (Lines [plain ''Fetching new currency exchange data:'']),
         WriteFile currentRatesJSON (asc ''body''),
         ConsoleLog (summary (Num (num (3 / 2))) (Num (num 1)) (Num (num 1000)))],
        Completed)"
  by (simp add: httpCallback_def Let_def example_env_simps asc_append [symmetric] show_false_error)



section \<open>Invalid rates, cached or fetched\<close>

lemma aud_only_props:
  "getprop (aud_only t) (asc ''timestamp'') = Inr (Num (num (of_int t)))"
  "getprop (aud_only t) (asc ''rates'') = Inr (Obj [(asc ''AUD'', Num (num (3 / 2)))])"
  "getprop (aud_only t) (asc ''error'') = Inr Undefined"
  "getprop (Obj [(asc ''AUD'', Num (num (3 / 2)))]) (asc ''EUR'') = Inr Undefined"
  by (simp_all add: aud_only_def asc_eq_iff)

text \<open>
  Claim C10, as amended. A snapshot that lacks \<open>rates.AUD\<close> or \<open>rates.EUR\<close> is handled
  by its origin. Read fresh from the cache, the error thrown by \<open>showResult\<close> is caught
  and logged, and the run goes on to the credential: exactly one HTTP request with a
  valid credential, none without. Arriving as the fetched body with no truthy \<open>error\<close>
  property, the same error is uncaught and ends the run after the write was started,
  with no further request.
\<close>

theorem invalid_rates_by_origin:
  assumes "getprop obj (asc ''rates'') = Inr r"
    and "r = Undefined \<or> r = Null \<or> getprop r (asc ''AUD'') = Inr Undefined
         \<or> getprop r (asc ''EUR'') = Inr Undefined"
  shows "(cache_file env = Inr c \<and> json_parse env c = Some obj
            \<and> getprop obj (asc ''timestamp'') = Inr (Num (num (of_int t)))
            \<and> \<bar>t\<bar> * 1000 \<le> 2 ^ 53 \<and> \<bar>now env\<bar> \<le> 8640000000000000
            \<and> now env - t * 1000 < 3600000
          \<longrightarrow> run env = (ConsoleLog (Thrown (Error (asc ''Rates missing from data!'')))
                            # fst (fetch env), snd (fetch env))
              \<and> http_requests (fst (run env)) = (if read_key env = None then 0 else 1))
       \<and> (json_parse env (concat chunks) = Some obj
            \<and> getprop obj (asc ''error'') = Inr e \<and> \<not> ToBoolean e
          \<longrightarrow> httpCallback env chunks =
                ([ConsoleLog (Lines [plain ''Fetching new currency exchange data:'']),
                  WriteFile currentRatesJSON (concat chunks)],
                 Uncaught (Error (asc ''Rates missing from data!''))))"
proof (intro conjI impI)
  note missing = rates_missing [OF assms]
  {
    assume a: "cache_file env = Inr c \<and> json_parse env c = Some obj
            \<and> getprop obj (asc ''timestamp'') = Inr (Num (num (of_int t)))
            \<and> \<bar>t\<bar> * 1000 \<le> 2 ^ 53 \<and> \<bar>now env\<bar> \<le> 8640000000000000
            \<and> now env - t * 1000 < 3600000"
    then have "cache_file env = Inr c" and "json_parse env c = Some obj"
      and "getprop obj (asc ''timestamp'') = Inr (Num (num (of_int t)))"
      and "\<bar>t\<bar> * 1000 \<le> 2 ^ 53" and "\<bar>now env\<bar> \<le> 8640000000000000"
      by blast+
    then have "read_cache env =
           (if now env - t * 1000 < 3600000
            then (case showResult obj of Inl err \<Rightarrow> (caught err, False) | Inr evs \<Rightarrow> (evs, True))
            else ([], False))"
      by (rule read_cache_parsed)
    then have rc: "read_cache env
                   = ([ConsoleLog (Thrown (Error (asc ''Rates missing from data!'')))], False)"
      using a missing by (simp add: caught_def errno_def)
    then show "run env = (ConsoleLog (Thrown (Error (asc ''Rates missing from data!'')))
                            # fst (fetch env), snd (fetch env))"
      by (simp add: run_def split: prod.splits)
    show "http_requests (fst (run env)) = (if read_key env = None then 0 else 1)"
      using rc by (simp add: requests_run)
  }
  {
    assume "json_parse env (concat chunks) = Some obj
            \<and> getprop obj (asc ''error'') = Inr e \<and> \<not> ToBoolean e"
    then show "httpCallback env chunks =
                ([ConsoleLog (Lines [plain ''Fetching new currency exchange data:'']),
                  WriteFile currentRatesJSON (concat chunks)],
                 Uncaught (Error (asc ''Rates missing from data!'')))"
      using missing by (simp add: httpCallback_def Let_def)
  }
qed

theorem invalid_rates_by_origin_witness:
  "run (example_env (aud_only 1000) 4599999 key32 (aud_only 1000) None)
   = (ConsoleLog (Thrown (Error (asc ''Rates missing from data!'')))
        # fst (fetch (example_env (aud_only 1000) 4599999 key32 (aud_only 1000) None)),
      snd (fetch (example_env (aud_only 1000) 4599999 key32 (aud_only 1000) None)))
   \<and> http_requests (fst (run (example_env (aud_only 1000) 4599999 key32 (aud_only 1000) None))) = 1
   \<and> httpCallback (example_env (aud_only 1000) 4599999 key32 (aud_only 1000) None)
        [asc ''bo'', asc ''dy'']
      = ([ConsoleLog (Lines [plain ''Fetching new currency exchange data:'']),
          WriteFile currentRatesJSON (asc ''body'')],
         Uncaught (Error (asc ''Rates missing from data!'')))"
  using invalid_rates_by_origin
    [where obj = "aud_only 1000" and r = "Obj [(asc ''AUD'', Num (num (3 / 2)))]"
       and env = "example_env (aud_only 1000) 4599999 key32 (aud_only 1000) None"
       and c = "asc ''cached''" and t = 1000 and chunks = "[asc ''bo'', asc ''dy'']"
       and e = Undefined]
  by (simp (no_asm_use) add: aud_only_props example_env_simps read_key_32 asc_append [symmetric]
        asc_eq_iff)

text \<open>
  Claim C10 as stated has exactly one HTTP request after every such cached snapshot;
  with a key of 31 characters there is none.
\<close>

theorem fresh_invalid_cache_counterexample:
  "getprop (aud_only 1000) (asc ''rates'') = Inr (Obj [(asc ''AUD'', Num (num (3 / 2)))])
   \<and> getprop (Obj [(asc ''AUD'', Num (num (3 / 2)))]) (asc ''EUR'') = Inr Undefined
   \<and> (4599999::int) - 1000 * 1000 < 3600000
   \<and> http_requests (fst (run (example_env (aud_only 1000) 4599999 key31 Null None))) = 0"
  by (simp add: aud_only_props requests_run read_key_31 example_env_simps asc_eq_iff)

section \<open>The product of the two cross-rates\<close>

lemma cross_rate_near:
  assumes "0 < x" and "0 < y" and "x \<le> 2 * y" and "y \<le> 2 * x"
  shows "\<exists>m. toFixed4 (js_div (Finite False x) (Finite False y)) = render4 m
             \<and> \<bar>real m / 10 ^ 4 - x / y\<bar> \<le> 1 / 20000 + 1 / 2 ^ 52"
proof -
  have lo: "1 / 2 \<le> x / y" and hi: "x / y \<le> 2"
    using assms by (simp_all add: field_simps)
  obtain q where q: "fl False (x / y) = Finite False q" and err: "\<bar>q - x / y\<bar> \<le> 1 / 2 ^ 52"
    using fl_near [OF lo hi] by blast
  have small: "(1::real) / 2 ^ 52 \<le> 1 / 4" by simp
  have "0 \<le> q" and "q \<le> 3"
    using err lo hi small by linarith+
  then have q0: "0 \<le> q" and q21: "\<not> 10 ^ 21 \<le> q" by simp_all
  have "js_div (Finite False x) (Finite False y) = Finite False q"
    using assms(2) q by simp
  then have "toFixed4 (js_div (Finite False x) (Finite False y)) = render4 (fixed4 q)"
    using q21 by (simp add: toFixed4_def)
  moreover have "\<bar>real (fixed4 q) / 10 ^ 4 - x / y\<bar> \<le> 1 / 20000 + 1 / 2 ^ 52"
    using fixed4_near [OF q0] err by linarith
  ultimately show ?thesis by blast
qed

lemma product_near_one:
  fixes a b c d :: real
  assumes "0 < c" and "c * c' = 1" and "c + c' \<le> 5 / 2"
    and "\<bar>a - c\<bar> \<le> d" and "\<bar>b - c'\<bar> \<le> d" and "0 \<le> d"
  shows "\<bar>a * b - 1\<bar> \<le> d * (5 / 2) + d * d"
proof -
  have c': "0 < c'" using assms(1,2) by (metis zero_less_mult_pos zero_less_one)
  have "a * b - 1 = c * (b - c') + c' * (a - c) + (a - c) * (b - c')"
    using assms(2) by (simp add: algebra_simps)
  then have "\<bar>a * b - 1\<bar> \<le> \<bar>c * (b - c')\<bar> + \<bar>c' * (a - c)\<bar> + \<bar>(a - c) * (b - c')\<bar>"
    by linarith
  also have "\<dots> = c * \<bar>b - c'\<bar> + c' * \<bar>a - c\<bar> + \<bar>a - c\<bar> * \<bar>b - c'\<bar>"
    using assms(1) c' by (simp add: abs_mult)
  also have "\<dots> \<le> c * d + c' * d + d * d"
    using assms(1,4,5,6) c' by (intro add_mono mult_left_mono mult_mono) simp_all
  also have "\<dots> = d * (c + c') + d * d" by (simp add: algebra_simps)
  also have "\<dots> \<le> d * (5 / 2) + d * d"
    using assms(3,6) by (intro add_mono mult_left_mono) simp_all
  finally show ?thesis .
qed

text \<open>
  The two quotients, each as \<open>toFixed(4)\<close> prints it, read as decimals.
\<close>

lemma quotients_product_near_one:
  assumes "0 < x" and "0 < y" and "x \<le> 2 * y" and "y \<le> 2 * x"
  shows "\<exists>a b. unsigned_decimal (toFixed4 (js_div (Finite False x) (Finite False y))) = Some a
               \<and> unsigned_decimal (toFixed4 (js_div (Finite False y) (Finite False x))) = Some b
               \<and> \<bar>a * b - 1\<bar> \<le> 13 / 100000"
proof -
  define d :: real where "d = 1 / 20000 + 1 / 2 ^ 52"
  obtain m where m: "toFixed4 (js_div (Finite False x) (Finite False y)) = render4 m"
    and am: "\<bar>real m / 10 ^ 4 - x / y\<bar> \<le> d"
    using cross_rate_near [OF assms] unfolding d_def by blast
  obtain n where n: "toFixed4 (js_div (Finite False y) (Finite False x)) = render4 n"
    and bn: "\<bar>real n / 10 ^ 4 - y / x\<bar> \<le> d"
    using cross_rate_near [OF assms(2,1,4,3)] unfolding d_def by blast
  have "(2 * x - y) * (x - 2 * y) \<le> 0"
    using assms(3,4) by (intro mult_nonneg_nonpos) simp_all
  then have "2 * (x * x + y * y) \<le> 5 * (x * y)" by (simp add: algebra_simps)
  then have sum: "x / y + y / x \<le> 5 / 2"
    using assms(1,2) by (simp add: field_simps)
  have "\<bar>real m / 10 ^ 4 * (real n / 10 ^ 4) - 1\<bar> \<le> d * (5 / 2) + d * d"
    using assms(1,2) sum am bn
    by (intro product_near_one [where c = "x / y" and c' = "y / x"]) (simp_all add: d_def)
  also have "\<dots> \<le> 13 / 100000" by (simp add: d_def)
  finally have "\<bar>real m / 10 ^ 4 * (real n / 10 ^ 4) - 1\<bar> \<le> 13 / 100000" .
  moreover have "unsigned_decimal (toFixed4 (js_div (Finite False x) (Finite False y)))
                 = Some (real m / 10 ^ 4)"
    and "unsigned_decimal (toFixed4 (js_div (Finite False y) (Finite False x)))
                 = Some (real n / 10 ^ 4)"
    by (simp_all only: m n render4_value)
  ultimately show ?thesis by blast
qed

lemma show_snapshot:
  assumes "aud \<noteq> 0" and "eur \<noteq> 0"
  shows "showResult (snapshot aud eur t) =
           Inr [ConsoleLog (summary (Num (num aud)) (Num (num eur)) (Num (num (of_int t))))]"
proof -
  have "\<exists>ts. getprop (snapshot aud eur t) (asc ''timestamp'') = Inr ts
          \<and> showResult (snapshot aud eur t) =
              Inr [ConsoleLog (summary (Num (num aud)) (Num (num eur)) ts)]"
    using assms
    by (intro guard_passes
          [where r = "Obj [(asc ''AUD'', Num (num aud)), (asc ''EUR'', Num (num eur))]"])
       (simp_all add: snapshot_def asc_eq_iff num_def)
  then show ?thesis by (auto simp: snapshot_timestamp)
qed

lemma summary_aud_line:
  "\<exists>hdr c l3. summary aud eur ts =
     Lines [hdr,
            [(None, [Lit (asc ''  1 EUR buys '')]),
             (Some c, [Lit (asc ''AUD $ '' @ toFixed4 (js_div (ToNumber aud) (ToNumber eur)))])],
            l3, []]"
  by (simp add: summary_def Let_def)

text \<open>
  Claim C2, as amended. For positive rates whose quotient lies between one half and two,
  \<open>showResult\<close> prints on its AUD-per-EUR line the quotient of the two rates as
  \<open>toFixed(4)\<close> rounds it, and so it does for the two rates exchanged; the two printed
  values are decimals whose product is within 0.00013 of 1.
\<close>

theorem cross_rate_product_near_one:
  assumes "0 < x" and "0 < y" and "x \<le> 2 * y" and "y \<le> 2 * x"
  shows "\<exists>a b hdr c l3 hdr' c' l3'.
           showResult (snapshot x y t) =
             Inr [ConsoleLog (Lines
               [hdr,
                [(None, [Lit (asc ''  1 EUR buys '')]),
                 (Some c, [Lit (asc ''AUD $ '' @ toFixed4 (js_div (num x) (num y)))])],
                l3, []])]
         \<and> showResult (snapshot y x t) =
             Inr [ConsoleLog (Lines
               [hdr',
                [(None, [Lit (asc ''  1 EUR buys '')]),
                 (Some c', [Lit (asc ''AUD $ '' @ toFixed4 (js_div (num y) (num x)))])],
                l3', []])]
         \<and> unsigned_decimal (toFixed4 (js_div (num x) (num y))) = Some a
         \<and> unsigned_decimal (toFixed4 (js_div (num y) (num x))) = Some b
         \<and> \<bar>a * b - 1\<bar> \<le> 13 / 100000"
proof -
  have nx: "num x = Finite False x" and ny: "num y = Finite False y"
    using assms(1,2) by (simp_all add: num_def)
  obtain a b where a: "unsigned_decimal (toFixed4 (js_div (num x) (num y))) = Some a"
    and b: "unsigned_decimal (toFixed4 (js_div (num y) (num x))) = Some b"
    and ab: "\<bar>a * b - 1\<bar> \<le> 13 / 100000"
    using quotients_product_near_one [OF assms] unfolding nx ny by blast
  obtain hdr c l3 where xy: "summary (Num (num x)) (Num (num y)) (Num (num (of_int t))) =
     Lines [hdr,
            [(None, [Lit (asc ''  1 EUR buys '')]),
             (Some c, [Lit (asc ''AUD $ '' @ toFixed4 (js_div (num x) (num y)))])],
            l3, []]"
    using summary_aud_line [of "Num (num x)" "Num (num y)" "Num (num (of_int t))"] by auto
  obtain hdr' c' l3' where yx: "summary (Num (num y)) (Num (num x)) (Num (num (of_int t))) =
     Lines [hdr',
            [(None, [Lit (asc ''  1 EUR buys '')]),
             (Some c', [Lit (asc ''AUD $ '' @ toFixed4 (js_div (num y) (num x)))])],
            l3', []]"
    using summary_aud_line [of "Num (num y)" "Num (num x)" "Num (num (of_int t))"] by auto
  have "showResult (snapshot x y t) =
          Inr [ConsoleLog (summary (Num (num x)) (Num (num y)) (Num (num (of_int t))))]"
    and "showResult (snapshot y x t) =
          Inr [ConsoleLog (summary (Num (num y)) (Num (num x)) (Num (num (of_int t))))]"
    using assms(1,2) by (simp_all add: show_snapshot)
  then show ?thesis using xy yx a b ab by (simp only:) blast
qed

theorem cross_rate_product_near_one_witness:
  "(0::real) < 3 / 2 \<and> (0::real) < 1 \<and> (3 / 2 :: real) \<le> 2 * 1 \<and> (1::real) \<le> 2 * (3 / 2)
   \<and> (\<exists>a b hdr c l3 hdr' c' l3'.
           showResult (snapshot (3 / 2) 1 1000) =
             Inr [ConsoleLog (Lines
               [hdr,
                [(None, [Lit (asc ''  1 EUR buys '')]),
                 (Some c, [Lit (asc ''AUD $ '' @ toFixed4 (js_div (num (3 / 2)) (num 1)))])],
                l3, []])]
         \<and> showResult (snapshot 1 (3 / 2) 1000) =
             Inr [ConsoleLog (Lines
               [hdr',
                [(None, [Lit (asc ''  1 EUR buys '')]),
                 (Some c', [Lit (asc ''AUD $ '' @ toFixed4 (js_div (num 1) (num (3 / 2))))])],
                l3', []])]
         \<and> unsigned_decimal (toFixed4 (js_div (num (3 / 2)) (num 1))) = Some a
         \<and> unsigned_decimal (toFixed4 (js_div (num 1) (num (3 / 2)))) = Some b
         \<and> \<bar>a * b - 1\<bar> \<le> 13 / 100000)"
proof -
  have "(0::real) < 3 / 2" and "(0::real) < 1" and "(3 / 2 :: real) \<le> 2 * 1"
    and "(1::real) \<le> 2 * (3 / 2)"
    by simp_all
  then show ?thesis
    using cross_rate_product_near_one [of "3 / 2" 1 1000] by blast
qed

lemma fl_0: "fl s 0 = Finite s 0"
  by (simp add: fl_def)

lemma fl_100000: "fl s 100000 = Finite s 100000"
  using fl_of_nat [of 100000 s] by simp

lemma fl_hundred_thousandth:
  "fl s (1 / 100000) = Finite s (5902958103587057 / 590295810358705651712)"
  by (simp add: fl_eval)

lemma fixed_hundred_thousandth:
  "toFixed4 (Finite False (5902958103587057 / 590295810358705651712)) = asc ''0.0000''"
  by (simp add: fixed_eval)

lemma fixed_100000: "toFixed4 (Finite False 100000) = asc ''100000.0000''"
  by (simp add: fixed_eval)

lemma decimal_0: "unsigned_decimal (asc ''0.0000'') = Some 0"
  by (simp add: string_eval)

lemma decimal_100000: "unsigned_decimal (asc ''100000.0000'') = Some 100000"
  by (simp add: string_eval)

lemma number_0: "StringToNumber (asc ''0.0000'') = Finite False 0"
  by (simp add: string_eval fl_0)

lemma number_100000: "StringToNumber (asc ''100000.0000'') = Finite False 100000"
  by (simp add: string_eval fl_100000)

lemma fl_inverse_hundred_thousandth:
  "fl s (590295810358705651712 / 5902958103587057) = Finite s (6871947673599999 / 68719476736)"
  by (simp add: fl_eval)

lemma fixed_inverse_hundred_thousandth:
  "toFixed4 (Finite False (6871947673599999 / 68719476736)) = asc ''100000.0000''"
  by (simp add: fixed_eval)

lemma summary_tiny:
  "summary (Num (num 1)) (Num (num 100000)) ts =
     Lines [[(Some CyanInverse, [Lit (asc '' Exchange rates from ''),
                                 DateOf (js_mul (ToNumber ts) (num 1000)), Lit (asc '' '')])],
            [(None, [Lit (asc ''  1 EUR buys '')]), (Some Magenta, [Lit (asc ''AUD $ 0.0000'')])],
            [(None, [Lit (asc ''  1 AUD buys '')]),
             (Some GreenBlink, [Lit (asc ''EUR '' @ [0x20AC] @ asc '' 100000.0000'')])],
            []]"
  by (simp add: summary_def Let_def num_def fl_hundred_thousandth fl_inverse_hundred_thousandth
        fixed_hundred_thousandth fixed_inverse_hundred_thousandth number_0 number_100000
        fl_3_2 fl_7_10 js_gt_def signed_def asc_append [symmetric])

lemma summary_huge:
  "summary (Num (num 100000)) (Num (num 1)) ts =
     Lines [[(Some CyanInverse, [Lit (asc '' Exchange rates from ''),
                                 DateOf (js_mul (ToNumber ts) (num 1000)), Lit (asc '' '')])],
            [(None, [Lit (asc ''  1 EUR buys '')]),
             (Some GreenBlink, [Lit (asc ''AUD $ 100000.0000'')])],
            [(None, [Lit (asc ''  1 AUD buys '')]),
             (Some Magenta, [Lit (asc ''EUR '' @ [0x20AC] @ asc '' 0.0000'')])],
            []]"
  by (simp add: summary_def Let_def num_def fl_100000 fl_hundred_thousandth
        fixed_hundred_thousandth fixed_100000 number_0 number_100000
        fl_3_2 fl_7_10 js_gt_def signed_def asc_append [symmetric])

text \<open>
  Claim C2 as stated is for all positive rates; for the rates 1 and 100000 \<open>showResult\<close>
  prints the cross-rate \<open>0.0000\<close>, and for the rates exchanged \<open>100000.0000\<close>; the product
  of the two printed values is 0.
\<close>

theorem cross_rate_product_counterexample:
  "showResult (snapshot 1 100000 1000) =
     Inr [ConsoleLog (Lines
       [[(Some CyanInverse, [Lit (asc '' Exchange rates from ''),
                             DateOf (js_mul (num 1000) (num 1000)), Lit (asc '' '')])],
        [(None, [Lit (asc ''  1 EUR buys '')]), (Some Magenta, [Lit (asc ''AUD $ 0.0000'')])],
        [(None, [Lit (asc ''  1 AUD buys '')]),
         (Some GreenBlink, [Lit (asc ''EUR '' @ [0x20AC] @ asc '' 100000.0000'')])],
        []])]
   \<and> showResult (snapshot 100000 1 1000) =
     Inr [ConsoleLog (Lines
       [[(Some CyanInverse, [Lit (asc '' Exchange rates from ''),
                             DateOf (js_mul (num 1000) (num 1000)), Lit (asc '' '')])],
        [(None, [Lit (asc ''  1 EUR buys '')]),
         (Some GreenBlink, [Lit (asc ''AUD $ 100000.0000'')])],
        [(None, [Lit (asc ''  1 AUD buys '')]),
         (Some Magenta, [Lit (asc ''EUR '' @ [0x20AC] @ asc '' 0.0000'')])],
        []])]
   \<and> unsigned_decimal (asc ''0.0000'') = Some 0
   \<and> unsigned_decimal (asc ''100000.0000'') = Some 100000
   \<and> js_mul (StringToNumber (asc ''0.0000'')) (StringToNumber (asc ''100000.0000''))
       = Finite False 0"
  by (simp add: show_snapshot summary_tiny summary_huge number_0 number_100000
        decimal_0 decimal_100000 fl_0)

end
